theory Spec2Isabelle
  imports Main "HOL-Library.Word"
begin

section \<open>The ArtStyleFHE contract (src/contracts/ArtStyleFHE.sol)\<close>

text \<open>
  The contract is embedded function by function. A transaction either reverts
  (\<open>Inl\<close> of the reason, the storage is then the one before the call) or
  returns the storage after the call (\<open>Inr\<close>).

  \<^item> \<open>uint256\<close> is \<open>256 word\<close>, \<open>uint32\<close> is \<open>32 word\<close>. Solidity 0.8 checks
    \<open>++\<close>, \<open>+\<close> and \<open>*\<close>: an overflow reverts with Panic(0x11).
  \<^item> \<open>euint32\<close> is the FHE library's handle type (a \<open>bytes32\<close> value); the
    contract only stores handles, compares them and passes them on.
  \<^item> A Solidity \<open>mapping\<close> is a total function: a slot that was never written
    reads as the all-zero record.
  \<^item> The FHE library and \<open>abi.decode\<close> are not part of the repository. They are
    taken as parameters (the record \<open>env\<close>); the request id that
    \<open>FHE.requestDecryption\<close> returns is an argument of the requesting function.
    Whether \<open>FHE.checkSignatures\<close> accepts is a function of its three arguments.
    The \<open>bytes\<close> arguments of the callbacks are only ever handed to these
    external functions, so their type is left open (\<open>'b\<close>).
  \<^item> Two logs make the outward effects visible: the decryption requests sent to
    the oracle and the events emitted.
\<close>

type_synonym u256 = "256 word"
type_synonym u32 = "32 word"
type_synonym euint32 = "256 word"

datatype error =
    Require string  \<comment> \<open>a failed \<open>require\<close>, with its message\<close>
  | Panic_overflow  \<comment> \<open>Panic(0x11): checked arithmetic overflowed\<close>
  | Panic_index  \<comment> \<open>Panic(0x32): array index out of bounds\<close>
  | CheckSignatures_reverted  \<comment> \<open>\<open>FHE.checkSignatures\<close> rejected the proof\<close>
  | Abi_decode_reverted  \<comment> \<open>\<open>abi.decode\<close> rejected the bytes\<close>

record Artwork =
  encryptedImageHash :: euint32
  encryptedStyleVector :: euint32
  encryptedArtistId :: euint32
  timestamp :: u256

record StyleMatch =
  encryptedSimilarityScore :: euint32
  encryptedReferenceId :: euint32
  isVerified :: bool

text \<open>The field \<open>artworkCount\<close> of the struct \<open>ArtistProfile\<close> is named
  \<open>profile_artworkCount\<close> here: the contract has a state variable \<open>artworkCount\<close> too.\<close>

record ArtistProfile =
  encryptedSignatureVector :: euint32
  profile_artworkCount :: u256

datatype selector = Sel_analyzeStyle | Sel_checkSignature | Sel_decryptSimilarity

datatype event =
    ArtworkSubmitted u256
  | AnalysisRequested u256
  | StyleMatchFound u256
  | VerificationCompleted u256

record 'b env =
  asEuint32 :: "u32 \<Rightarrow> euint32"
  decrypt :: "euint32 \<Rightarrow> u32"
  toBytes32 :: "euint32 \<Rightarrow> u256"
  checkSignatures :: "u256 \<Rightarrow> 'b \<Rightarrow> 'b \<Rightarrow> bool"
  decode_uint32_array :: "'b \<Rightarrow> u32 list option"
  decode_uint32 :: "'b \<Rightarrow> u32 option"

record contract =
  artworkCount :: u256
  artistCount :: u256
  analysisCount :: u256
  artworks :: "u256 \<Rightarrow> Artwork"
  styleMatches :: "u256 \<Rightarrow> StyleMatch"
  artistProfiles :: "u256 \<Rightarrow> ArtistProfile"
  requestToArtworkId :: "u256 \<Rightarrow> u256"
  requestToAnalysisId :: "u256 \<Rightarrow> u256"
  decryptionRequests :: "(u256 list \<times> selector \<times> u256) list"
  events :: "event list"

definition zero_Artwork :: Artwork where
  "zero_Artwork = \<lparr>encryptedImageHash = 0, encryptedStyleVector = 0,
     encryptedArtistId = 0, timestamp = 0\<rparr>"

definition zero_StyleMatch :: StyleMatch where
  "zero_StyleMatch = \<lparr>encryptedSimilarityScore = 0, encryptedReferenceId = 0,
     isVerified = False\<rparr>"

definition zero_ArtistProfile :: ArtistProfile where
  "zero_ArtistProfile = \<lparr>encryptedSignatureVector = 0, profile_artworkCount = 0\<rparr>"

text \<open>The storage of the freshly deployed contract.\<close>

definition deployed :: contract where
  "deployed = \<lparr>artworkCount = 0, artistCount = 0, analysisCount = 0,
     artworks = (\<lambda>_. zero_Artwork), styleMatches = (\<lambda>_. zero_StyleMatch),
     artistProfiles = (\<lambda>_. zero_ArtistProfile),
     requestToArtworkId = (\<lambda>_. 0), requestToAnalysisId = (\<lambda>_. 0),
     decryptionRequests = [], events = []\<rparr>"

subsection \<open>Checked arithmetic and array reads\<close>

definition incr :: "u256 \<Rightarrow> error + u256" where
  "incr x = (if x = - 1 then Inl Panic_overflow else Inr (x + 1))"

definition add32 :: "u32 \<Rightarrow> u32 \<Rightarrow> error + u32" where
  "add32 a b = (if unat a + unat b < 2 ^ 32 then Inr (a + b) else Inl Panic_overflow)"

definition mul32 :: "u32 \<Rightarrow> u32 \<Rightarrow> error + u32" where
  "mul32 a b = (if unat a * unat b < 2 ^ 32 then Inr (a * b) else Inl Panic_overflow)"

definition index :: "'a list \<Rightarrow> nat \<Rightarrow> error + 'a" where
  "index xs i = (if i < length xs then Inr (xs ! i) else Inl Panic_index)"

text \<open>The loop of \<open>analyzeStyle\<close>:
  \<^verbatim>\<open>for (uint i = 0; i < styleVector1.length; i++) similarity += styleVector1[i] * styleVector2[i];\<close>\<close>

function similarity_loop :: "u32 list \<Rightarrow> u32 list \<Rightarrow> nat \<Rightarrow> u32 \<Rightarrow> error + u32" where
  "similarity_loop styleVector1 styleVector2 i similarity =
     (if i < length styleVector1 then
        (case index styleVector1 i of Inl e \<Rightarrow> Inl e | Inr a \<Rightarrow>
         case index styleVector2 i of Inl e \<Rightarrow> Inl e | Inr b \<Rightarrow>
         case mul32 a b of Inl e \<Rightarrow> Inl e | Inr p \<Rightarrow>
         case add32 similarity p of Inl e \<Rightarrow> Inl e | Inr similarity' \<Rightarrow>
           similarity_loop styleVector1 styleVector2 (i + 1) similarity')
      else Inr similarity)"
  by pat_completeness auto
termination
  by (relation "measure (\<lambda>(styleVector1, styleVector2, i, similarity). length styleVector1 - i)") auto

declare similarity_loop.simps [simp del]

subsection \<open>The functions of the contract\<close>

definition emit :: "event \<Rightarrow> contract \<Rightarrow> contract" where
  "emit e s = s\<lparr>events := events s @ [e]\<rparr>"

text \<open>\<open>FHE.requestDecryption(ciphertexts, selector)\<close> returning \<open>reqId\<close>.\<close>

definition requestDecryption :: "u256 list \<Rightarrow> selector \<Rightarrow> u256 \<Rightarrow> contract \<Rightarrow> contract" where
  "requestDecryption ciphertexts sel reqId s =
     s\<lparr>decryptionRequests := decryptionRequests s @ [(ciphertexts, sel, reqId)]\<rparr>"

definition registerArtist :: "contract \<Rightarrow> euint32 \<Rightarrow> error + contract" where
  "registerArtist s signatureVector =
     (case incr (artistCount s) of Inl e \<Rightarrow> Inl e | Inr n \<Rightarrow>
        Inr (s\<lparr>artistCount := n,
               artistProfiles := (artistProfiles s)
                 (n := \<lparr>encryptedSignatureVector = signatureVector,
                         profile_artworkCount = 0\<rparr>)\<rparr>))"

definition submitArtwork ::
  "'b env \<Rightarrow> contract \<Rightarrow> euint32 \<Rightarrow> euint32 \<Rightarrow> euint32 \<Rightarrow> u256 \<Rightarrow> error + contract" where
  "submitArtwork E s imageHash styleVector artistId block_timestamp =
     (case incr (artworkCount s) of Inl e \<Rightarrow> Inl e | Inr n \<Rightarrow>
        let s1 = s\<lparr>artworkCount := n,
                   artworks := (artworks s)
                     (n := \<lparr>encryptedImageHash = imageHash,
                             encryptedStyleVector = styleVector,
                             encryptedArtistId = artistId,
                             timestamp = block_timestamp\<rparr>)\<rparr>
        in
        if artistId \<noteq> asEuint32 E 0 then
          (let k = ucast (decrypt E artistId) in
           case incr (profile_artworkCount (artistProfiles s1 k)) of Inl e \<Rightarrow> Inl e | Inr c \<Rightarrow>
             Inr (emit (ArtworkSubmitted n)
                   (s1\<lparr>artistProfiles := (artistProfiles s1)
                         (k := (artistProfiles s1 k)\<lparr>profile_artworkCount := c\<rparr>)\<rparr>)))
        else Inr (emit (ArtworkSubmitted n) s1))"

definition requestStyleAnalysis ::
  "'b env \<Rightarrow> contract \<Rightarrow> u256 \<Rightarrow> u256 \<Rightarrow> u256 \<Rightarrow> error + contract" where
  "requestStyleAnalysis E s artworkId referenceId reqId =
     (if \<not> artworkId \<le> artworkCount s then Inl (Require ''Invalid artwork'')
      else if \<not> referenceId \<le> artworkCount s then Inl (Require ''Invalid reference'')
      else
        let ciphertexts =
              [toBytes32 E (encryptedStyleVector (artworks s artworkId)),
               toBytes32 E (encryptedStyleVector (artworks s referenceId)),
               toBytes32 E (encryptedArtistId (artworks s artworkId)),
               toBytes32 E (encryptedArtistId (artworks s referenceId))];
            s1 = requestDecryption ciphertexts Sel_analyzeStyle reqId s;
            s2 = s1\<lparr>requestToArtworkId := (requestToArtworkId s1)(reqId := artworkId)\<rparr>;
            s3 = s2\<lparr>requestToAnalysisId := (requestToAnalysisId s2)(reqId := referenceId)\<rparr>
        in Inr (emit (AnalysisRequested artworkId) s3))"

definition analyzeStyle :: "'b env \<Rightarrow> contract \<Rightarrow> u256 \<Rightarrow> 'b \<Rightarrow> 'b \<Rightarrow> error + contract" where
  "analyzeStyle E s requestId cleartexts proof =
     (let artworkId = requestToArtworkId s requestId;
          referenceId = requestToAnalysisId s requestId
      in
      if \<not> (artworkId \<noteq> 0 \<and> referenceId \<noteq> 0) then Inl (Require ''Invalid request'')
      else if \<not> checkSignatures E requestId cleartexts proof then Inl CheckSignatures_reverted
      else
        case decode_uint32_array E cleartexts of None \<Rightarrow> Inl Abi_decode_reverted
        | Some vectors \<Rightarrow>
          let styleVector1 = replicate (length vectors div 4) (0 :: u32);
              styleVector2 = replicate (length vectors div 4) (0 :: u32)
          in
          case index vectors (length vectors div 2) of Inl e \<Rightarrow> Inl e | Inr artistId1 \<Rightarrow>
          case index vectors (length vectors div 2 + 1) of Inl e \<Rightarrow> Inl e | Inr artistId2 \<Rightarrow>
          case similarity_loop styleVector1 styleVector2 0 0 of Inl e \<Rightarrow> Inl e
          | Inr similarity \<Rightarrow>
          case incr (analysisCount s) of Inl e \<Rightarrow> Inl e | Inr n \<Rightarrow>
            let s1 = s\<lparr>analysisCount := n,
                       styleMatches := (styleMatches s)
                         (n := \<lparr>encryptedSimilarityScore = asEuint32 E similarity,
                                 encryptedReferenceId = asEuint32 E (ucast referenceId),
                                 isVerified = False\<rparr>)\<rparr>;
                s2 = (if artistId1 = artistId2 \<and> artistId1 \<noteq> 0
                      then s1\<lparr>styleMatches := (styleMatches s1)
                                 (n := (styleMatches s1 n)\<lparr>isVerified := True\<rparr>)\<rparr>
                      else s1)
            in Inr (emit (StyleMatchFound n) s2))"

definition verifyAuthenticity ::
  "'b env \<Rightarrow> contract \<Rightarrow> u256 \<Rightarrow> u256 \<Rightarrow> u256 \<Rightarrow> error + contract" where
  "verifyAuthenticity E s analysisId artistId reqId =
     (if \<not> analysisId \<le> analysisCount s then Inl (Require ''Invalid analysis'')
      else if \<not> artistId \<le> artistCount s then Inl (Require ''Invalid artist'')
      else
        let ciphertexts =
              [toBytes32 E (encryptedSimilarityScore (styleMatches s analysisId)),
               toBytes32 E (encryptedSignatureVector (artistProfiles s artistId))];
            s1 = requestDecryption ciphertexts Sel_checkSignature reqId s
        in Inr (s1\<lparr>requestToAnalysisId := (requestToAnalysisId s1)(reqId := analysisId)\<rparr>))"

definition checkSignature :: "'b env \<Rightarrow> contract \<Rightarrow> u256 \<Rightarrow> 'b \<Rightarrow> 'b \<Rightarrow> error + contract" where
  "checkSignature E s requestId cleartexts proof =
     (let analysisId = requestToAnalysisId s requestId in
      if \<not> analysisId \<noteq> 0 then Inl (Require ''Invalid request'')
      else if \<not> checkSignatures E requestId cleartexts proof then Inl CheckSignatures_reverted
      else
        case decode_uint32_array E cleartexts of None \<Rightarrow> Inl Abi_decode_reverted
        | Some data \<Rightarrow>
          case index data 0 of Inl e \<Rightarrow> Inl e | Inr similarityScore \<Rightarrow>
          case index data 1 of Inl e \<Rightarrow> Inl e | Inr signatureMatch \<Rightarrow>
            let isAuthentic = (7000 < similarityScore \<and> 8000 < signatureMatch);
                s1 = s\<lparr>styleMatches := (styleMatches s)
                         (analysisId := (styleMatches s analysisId)\<lparr>isVerified := isAuthentic\<rparr>)\<rparr>
            in Inr (emit (VerificationCompleted analysisId) s1))"

definition requestAnalysisProof ::
  "'b env \<Rightarrow> contract \<Rightarrow> u256 \<Rightarrow> u256 \<Rightarrow> error + contract" where
  "requestAnalysisProof E s analysisId reqId =
     (if \<not> analysisId \<le> analysisCount s then Inl (Require ''Invalid analysis'')
      else if \<not> isVerified (styleMatches s analysisId) then Inl (Require ''Not verified'')
      else
        let ciphertexts = [toBytes32 E (encryptedSimilarityScore (styleMatches s analysisId))];
            s1 = requestDecryption ciphertexts Sel_decryptSimilarity reqId s
        in Inr (s1\<lparr>requestToAnalysisId := (requestToAnalysisId s1)(reqId := analysisId)\<rparr>))"

definition decryptSimilarity :: "'b env \<Rightarrow> contract \<Rightarrow> u256 \<Rightarrow> 'b \<Rightarrow> 'b \<Rightarrow> error + contract" where
  "decryptSimilarity E s requestId cleartexts proof =
     (let analysisId = requestToAnalysisId s requestId in
      if \<not> analysisId \<noteq> 0 then Inl (Require ''Invalid request'')
      else if \<not> checkSignatures E requestId cleartexts proof then Inl CheckSignatures_reverted
      else
        case decode_uint32 E cleartexts of None \<Rightarrow> Inl Abi_decode_reverted
        | Some similarity \<Rightarrow> Inr s)"

definition getArtworkCount :: "contract \<Rightarrow> u256" where
  "getArtworkCount s = artworkCount s"

definition getVerificationStatus :: "contract \<Rightarrow> u256 \<Rightarrow> bool" where
  "getVerificationStatus s analysisId = isVerified (styleMatches s analysisId)"

definition getArtistArtworkCount :: "contract \<Rightarrow> u256 \<Rightarrow> u256" where
  "getArtistArtworkCount s artistId = profile_artworkCount (artistProfiles s artistId)"

subsection \<open>Transactions\<close>

text \<open>Every public function that writes, as one call; a reverted call leaves the
  storage as it was.\<close>

datatype 'b call =
    RegisterArtist euint32
  | SubmitArtwork euint32 euint32 euint32 u256
  | RequestStyleAnalysis u256 u256 u256
  | AnalyzeStyle u256 'b 'b
  | VerifyAuthenticity u256 u256 u256
  | CheckSignature u256 'b 'b
  | RequestAnalysisProof u256 u256
  | DecryptSimilarity u256 'b 'b

definition perform :: "'b env \<Rightarrow> contract \<Rightarrow> 'b call \<Rightarrow> error + contract" where
  "perform E s c =
     (case c of
        RegisterArtist signatureVector \<Rightarrow> registerArtist s signatureVector
      | SubmitArtwork imageHash styleVector artistId block_timestamp \<Rightarrow>
          submitArtwork E s imageHash styleVector artistId block_timestamp
      | RequestStyleAnalysis artworkId referenceId reqId \<Rightarrow>
          requestStyleAnalysis E s artworkId referenceId reqId
      | AnalyzeStyle requestId cleartexts proof \<Rightarrow> analyzeStyle E s requestId cleartexts proof
      | VerifyAuthenticity analysisId artistId reqId \<Rightarrow>
          verifyAuthenticity E s analysisId artistId reqId
      | CheckSignature requestId cleartexts proof \<Rightarrow> checkSignature E s requestId cleartexts proof
      | RequestAnalysisProof analysisId reqId \<Rightarrow> requestAnalysisProof E s analysisId reqId
      | DecryptSimilarity requestId cleartexts proof \<Rightarrow>
          decryptSimilarity E s requestId cleartexts proof)"

definition transact :: "'b env \<Rightarrow> contract \<Rightarrow> 'b call \<Rightarrow> contract" where
  "transact E s c = (case perform E s c of Inl e \<Rightarrow> s | Inr s' \<Rightarrow> s')"

definition run :: "'b env \<Rightarrow> contract \<Rightarrow> 'b call list \<Rightarrow> contract" where
  "run E s cs = foldl (transact E) s cs"

subsection \<open>An instance of the external functions, to run examples\<close>

text \<open>Handles are the values themselves, every proof is accepted, and the callback
  bytes are the already decoded \<open>uint32\<close> array.\<close>

definition plain :: "(u32 list) env" where
  "plain = \<lparr>asEuint32 = ucast, decrypt = ucast, toBytes32 = (\<lambda>h. h),
     checkSignatures = (\<lambda>requestId cleartexts proof. True),
     decode_uint32_array = Some,
     decode_uint32 = (\<lambda>c. case c of [x] \<Rightarrow> Some x | _ \<Rightarrow> None)\<rparr>"

subsection \<open>A run of the contract, to evaluate examples\<close>

text \<open>One artist is registered and two artworks attributed to that artist are
  submitted (\<open>scenario_submitted\<close>). A style analysis of artwork 1 against artwork 2 is
  requested, and the oracle answers that request with the id 5 (\<open>scenario_requested\<close>).
  The score callback for request 5 arrives (\<open>scenario_scored\<close>), a verification of
  analysis 1 against artist 1 is requested with request id 6 (\<open>scenario_verifying\<close>),
  and its callback arrives with similarity 8000 and signature match 9000
  (\<open>scenario_verified\<close>). Last, the disclosure of the score of analysis 1 is requested
  with request id 7 (\<open>scenario_disclosing\<close>). In \<open>scenario_rejected\<close> the callback of
  request 6 arrives with similarity 5000 and signature match 9000 instead.\<close>

definition score_payload :: "u32 list" where
  "score_payload = [1, 2, 3, 4, 5, 6, 1, 1, 0, 0, 0, 0]"

definition scenario_submitted :: contract where
  "scenario_submitted = run plain deployed
     [RegisterArtist 77, SubmitArtwork 10 11 1 1000, SubmitArtwork 20 21 1 1001]"

definition scenario_requested :: contract where
  "scenario_requested = transact plain scenario_submitted (RequestStyleAnalysis 1 2 5)"

definition scenario_scored :: contract where
  "scenario_scored = transact plain scenario_requested (AnalyzeStyle 5 score_payload [])"

definition scenario_verifying :: contract where
  "scenario_verifying = transact plain scenario_scored (VerifyAuthenticity 1 1 6)"

definition scenario_verified :: contract where
  "scenario_verified = transact plain scenario_verifying (CheckSignature 6 [8000, 9000] [])"

definition scenario_disclosing :: contract where
  "scenario_disclosing = transact plain scenario_verified (RequestAnalysisProof 1 7)"

definition scenario_rejected :: contract where
  "scenario_rejected = transact plain scenario_verifying (CheckSignature 6 [5000, 9000] [])"

section \<open>Closed forms of the callbacks\<close>

text \<open>The two arrays \<open>styleVector1\<close> and \<open>styleVector2\<close> are allocated and never
  written, so the loop adds up products of zeros.\<close>

lemma similarity_loop_zeros:
  "similarity_loop (replicate n 0) (replicate n 0) i 0 = Inr 0"
proof (induction "n - i" arbitrary: i)
  case 0
  then show ?case by (simp add: similarity_loop.simps)
next
  case (Suc d)
  then have "i < n" and "d = n - (i + 1)" by simp_all
  with Suc.hyps(1) [of "i + 1"] show ?case
    by (subst similarity_loop.simps) (simp add: index_def mul32_def add32_def)
qed

lemma analyzeStyle_closed:
  "analyzeStyle E s q c p =
     (if requestToArtworkId s q = 0 \<or> requestToAnalysisId s q = 0
      then Inl (Require ''Invalid request'')
      else if \<not> checkSignatures E q c p then Inl CheckSignatures_reverted
      else case decode_uint32_array E c of None \<Rightarrow> Inl Abi_decode_reverted
      | Some vectors \<Rightarrow>
        if length vectors \<le> length vectors div 2 + 1 then Inl Panic_index
        else if analysisCount s = - 1 then Inl Panic_overflow
        else Inr (s\<lparr>analysisCount := analysisCount s + 1,
               styleMatches := (styleMatches s)
                 (analysisCount s + 1 :=
                    \<lparr>encryptedSimilarityScore = asEuint32 E 0,
                     encryptedReferenceId = asEuint32 E (ucast (requestToAnalysisId s q)),
                     isVerified =
                       (vectors ! (length vectors div 2) = vectors ! (length vectors div 2 + 1)
                        \<and> vectors ! (length vectors div 2) \<noteq> 0)\<rparr>),
               events := events s @ [StyleMatchFound (analysisCount s + 1)]\<rparr>))"
  by (auto simp: analyzeStyle_def similarity_loop_zeros index_def incr_def emit_def Let_def
      split: option.splits)

lemma checkSignature_closed:
  "checkSignature E s q c p =
     (if requestToAnalysisId s q = 0 then Inl (Require ''Invalid request'')
      else if \<not> checkSignatures E q c p then Inl CheckSignatures_reverted
      else case decode_uint32_array E c of None \<Rightarrow> Inl Abi_decode_reverted
      | Some data \<Rightarrow>
        if length data < 2 then Inl Panic_index
        else Inr (s\<lparr>styleMatches := (styleMatches s)
                 (requestToAnalysisId s q := (styleMatches s (requestToAnalysisId s q))
                    \<lparr>isVerified := (7000 < data ! 0 \<and> 8000 < data ! 1)\<rparr>),
               events := events s @ [VerificationCompleted (requestToAnalysisId s q)]\<rparr>))"
  by (auto simp: checkSignature_def index_def emit_def Let_def split: option.splits)

lemma decryptSimilarity_closed:
  "decryptSimilarity E s q c p =
     (if requestToAnalysisId s q = 0 then Inl (Require ''Invalid request'')
      else if \<not> checkSignatures E q c p then Inl CheckSignatures_reverted
      else case decode_uint32 E c of None \<Rightarrow> Inl Abi_decode_reverted | Some similarity \<Rightarrow> Inr s)"
  by (simp add: decryptSimilarity_def Let_def)

text \<open>The id \<open>analysisCount + 1\<close> of a new analysis differs from every id in use.\<close>

lemma next_id_fresh: "a \<le> x \<Longrightarrow> x \<noteq> - 1 \<Longrightarrow> a \<noteq> x + (1 :: u256)"
  using inc_less_eq_self_iff_eq [of x] by auto

lemma perform_accepted: "\<not> isl (perform E s c) \<Longrightarrow> perform E s c = Inr (transact E s c)"
  by (cases "perform E s c") (simp_all add: transact_def)

section \<open>The example run, evaluated\<close>

lemmas plain_simps =
  plain_def deployed_def zero_Artwork_def zero_StyleMatch_def zero_ArtistProfile_def

lemma scenario_submitted_eq:
  "scenario_submitted =
     \<lparr>artworkCount = 2, artistCount = 1, analysisCount = 0,
      artworks = (\<lambda>_. zero_Artwork)
        (1 := \<lparr>encryptedImageHash = 10, encryptedStyleVector = 11, encryptedArtistId = 1,
                timestamp = 1000\<rparr>,
         2 := \<lparr>encryptedImageHash = 20, encryptedStyleVector = 21, encryptedArtistId = 1,
                timestamp = 1001\<rparr>),
      styleMatches = (\<lambda>_. zero_StyleMatch),
      artistProfiles = (\<lambda>_. zero_ArtistProfile)
        (1 := \<lparr>encryptedSignatureVector = 77, profile_artworkCount = 2\<rparr>),
      requestToArtworkId = (\<lambda>_. 0),
      requestToAnalysisId = (\<lambda>_. 0),
      decryptionRequests = [],
      events = [ArtworkSubmitted 1, ArtworkSubmitted 2]\<rparr>"
  by (simp add: scenario_submitted_def run_def transact_def perform_def registerArtist_def
      submitArtwork_def incr_def emit_def plain_simps Let_def)

lemma scenario_requested_eq:
  "scenario_requested =
     \<lparr>artworkCount = 2, artistCount = 1, analysisCount = 0,
      artworks = (\<lambda>_. zero_Artwork)
        (1 := \<lparr>encryptedImageHash = 10, encryptedStyleVector = 11, encryptedArtistId = 1,
                timestamp = 1000\<rparr>,
         2 := \<lparr>encryptedImageHash = 20, encryptedStyleVector = 21, encryptedArtistId = 1,
                timestamp = 1001\<rparr>),
      styleMatches = (\<lambda>_. zero_StyleMatch),
      artistProfiles = (\<lambda>_. zero_ArtistProfile)
        (1 := \<lparr>encryptedSignatureVector = 77, profile_artworkCount = 2\<rparr>),
      requestToArtworkId = (\<lambda>_. 0)(5 := 1),
      requestToAnalysisId = (\<lambda>_. 0)(5 := 2),
      decryptionRequests = [([11, 21, 1, 1], Sel_analyzeStyle, 5)],
      events = [ArtworkSubmitted 1, ArtworkSubmitted 2, AnalysisRequested 1]\<rparr>"
  by (simp add: scenario_requested_def transact_def perform_def requestStyleAnalysis_def
      requestDecryption_def emit_def scenario_submitted_eq plain_def Let_def)

lemma scenario_scored_eq:
  "scenario_scored =
     scenario_requested
       \<lparr>analysisCount := 1,
        styleMatches := (\<lambda>_. zero_StyleMatch)
          (1 := \<lparr>encryptedSimilarityScore = 0, encryptedReferenceId = 2, isVerified = True\<rparr>),
        events := [ArtworkSubmitted 1, ArtworkSubmitted 2, AnalysisRequested 1,
          StyleMatchFound 1]\<rparr>"
  by (simp add: scenario_scored_def transact_def perform_def analyzeStyle_closed
      scenario_requested_eq score_payload_def plain_def)

lemma scenario_verifying_eq:
  "scenario_verifying =
     scenario_scored
       \<lparr>requestToAnalysisId := (\<lambda>_. 0)(5 := 2, 6 := 1),
        decryptionRequests :=
          [([11, 21, 1, 1], Sel_analyzeStyle, 5), ([0, 77], Sel_checkSignature, 6)]\<rparr>"
  by (simp add: scenario_verifying_def transact_def perform_def verifyAuthenticity_def
      requestDecryption_def scenario_scored_eq scenario_requested_eq plain_def Let_def)

lemma scenario_verified_eq:
  "scenario_verified =
     scenario_verifying
       \<lparr>events := [ArtworkSubmitted 1, ArtworkSubmitted 2, AnalysisRequested 1,
          StyleMatchFound 1, VerificationCompleted 1]\<rparr>"
  by (simp add: scenario_verified_def transact_def perform_def checkSignature_closed
      scenario_verifying_eq scenario_scored_eq scenario_requested_eq plain_def)

lemma scenario_disclosing_eq:
  "scenario_disclosing =
     scenario_verified
       \<lparr>requestToAnalysisId := (\<lambda>_. 0)(5 := 2, 6 := 1, 7 := 1),
        decryptionRequests :=
          [([11, 21, 1, 1], Sel_analyzeStyle, 5), ([0, 77], Sel_checkSignature, 6),
           ([0], Sel_decryptSimilarity, 7)]\<rparr>"
  by (simp add: scenario_disclosing_def transact_def perform_def requestAnalysisProof_def
      requestDecryption_def scenario_verified_eq scenario_verifying_eq scenario_scored_eq
      scenario_requested_eq plain_def Let_def)

lemma scenario_rejected_eq:
  "scenario_rejected =
     scenario_verifying
       \<lparr>styleMatches := (\<lambda>_. zero_StyleMatch)
          (1 := \<lparr>encryptedSimilarityScore = 0, encryptedReferenceId = 2, isVerified = False\<rparr>),
        events := [ArtworkSubmitted 1, ArtworkSubmitted 2, AnalysisRequested 1,
          StyleMatchFound 1, VerificationCompleted 1]\<rparr>"
  by (simp add: scenario_rejected_def transact_def perform_def checkSignature_closed
      scenario_verifying_eq scenario_scored_eq scenario_requested_eq plain_def)

lemma proof_requested:
  "requestAnalysisProof plain scenario_verified 1 7 = Inr scenario_disclosing"
  by (simp add: requestAnalysisProof_def requestDecryption_def scenario_disclosing_eq
      scenario_verified_eq scenario_verifying_eq scenario_scored_eq scenario_requested_eq
      plain_def Let_def)

lemma verification_requested:
  "verifyAuthenticity plain scenario_scored 1 1 6 = Inr scenario_verifying"
  by (simp add: verifyAuthenticity_def requestDecryption_def scenario_verifying_eq
      scenario_scored_eq scenario_requested_eq plain_def Let_def)

lemma request_accepted:
  "requestStyleAnalysis plain scenario_submitted 1 2 5 = Inr scenario_requested"
  by (simp add: requestStyleAnalysis_def requestDecryption_def emit_def scenario_requested_eq
      scenario_submitted_eq plain_def Let_def)

lemma first_delivery:
  "perform plain scenario_requested (AnalyzeStyle 5 score_payload []) = Inr scenario_scored"
  by (simp add: perform_def analyzeStyle_closed scenario_scored_eq scenario_requested_eq
      score_payload_def plain_def)

lemma verdict_delivery:
  "perform plain scenario_verifying (CheckSignature 6 [8000, 9000] []) = Inr scenario_verified"
  by (simp add: perform_def checkSignature_closed scenario_verified_eq scenario_verifying_eq
      scenario_scored_eq scenario_requested_eq plain_def)

lemma disclosure_delivery:
  "decryptSimilarity plain scenario_disclosing 7 [0] [] = Inr scenario_disclosing"
  by (simp add: decryptSimilarity_closed scenario_disclosing_eq scenario_verified_eq
      scenario_verifying_eq scenario_scored_eq scenario_requested_eq plain_def)

section \<open>The claims\<close>

subsection \<open>C1: a callback delivered twice\<close>

text \<open>C1. The claim: the second delivery of a callback that was accepted once fails with
  AlreadyConsumed, and a consumed correlation entry is never matched again. The contract
  has no consumed flag and no handler writes to the correlation tables. What holds:
  the second delivery of the same (request id, bytes, proof) is accepted again. For
  \<open>analyzeStyle\<close> (unless \<open>analysisCount\<close> is at its maximum) it stores one more
  analysis with the same content under the next id, and the analysis stored by the first
  delivery is as it was; for \<open>checkSignature\<close> it leaves all analyses as they were after
  the first delivery; for \<open>decryptSimilarity\<close> it changes nothing. The correlation
  entries are those from before the first delivery.\<close>

theorem replayed_callback_accepted_again:
  "(analyzeStyle E s q c p = Inr s1 \<and> analysisCount s1 \<noteq> - 1 \<longrightarrow>
      (\<exists>s2. analyzeStyle E s1 q c p = Inr s2
         \<and> analysisCount s2 = analysisCount s1 + 1
         \<and> styleMatches s2 (analysisCount s2) = styleMatches s1 (analysisCount s1)
         \<and> styleMatches s2 (analysisCount s1) = styleMatches s1 (analysisCount s1)))
   \<and> (checkSignature E s q c p = Inr s1 \<longrightarrow>
      (\<exists>s2. checkSignature E s1 q c p = Inr s2 \<and> styleMatches s2 = styleMatches s1
         \<and> analysisCount s2 = analysisCount s1))
   \<and> (decryptSimilarity E s q c p = Inr s1 \<longrightarrow> decryptSimilarity E s1 q c p = Inr s1)
   \<and> (analyzeStyle E s q c p = Inr s1 \<or> checkSignature E s q c p = Inr s1
        \<or> decryptSimilarity E s q c p = Inr s1 \<longrightarrow>
      requestToArtworkId s1 = requestToArtworkId s
      \<and> requestToAnalysisId s1 = requestToAnalysisId s)"
proof (intro conjI impI)
  assume "analyzeStyle E s q c p = Inr s1 \<and> analysisCount s1 \<noteq> - 1"
  then show "\<exists>s2. analyzeStyle E s1 q c p = Inr s2
         \<and> analysisCount s2 = analysisCount s1 + 1
         \<and> styleMatches s2 (analysisCount s2) = styleMatches s1 (analysisCount s1)
         \<and> styleMatches s2 (analysisCount s1) = styleMatches s1 (analysisCount s1)"
    by (auto simp: analyzeStyle_closed split: if_splits option.splits)
next
  assume "checkSignature E s q c p = Inr s1"
  then show "\<exists>s2. checkSignature E s1 q c p = Inr s2 \<and> styleMatches s2 = styleMatches s1
         \<and> analysisCount s2 = analysisCount s1"
    by (auto simp: checkSignature_closed split: if_splits option.splits)
next
  assume "decryptSimilarity E s q c p = Inr s1"
  then show "decryptSimilarity E s1 q c p = Inr s1"
    by (auto simp: decryptSimilarity_closed split: if_splits option.splits)
next
  assume *: "analyzeStyle E s q c p = Inr s1 \<or> checkSignature E s q c p = Inr s1
        \<or> decryptSimilarity E s q c p = Inr s1"
  then show "requestToArtworkId s1 = requestToArtworkId s"
    by (auto simp: analyzeStyle_closed checkSignature_closed decryptSimilarity_closed
        split: if_splits option.splits)
  from * show "requestToAnalysisId s1 = requestToAnalysisId s"
    by (auto simp: analyzeStyle_closed checkSignature_closed decryptSimilarity_closed
        split: if_splits option.splits)
qed

text \<open>In the example run: the score callback of request 5 is accepted a second time and
  stores analysis 2, a copy of analysis 1; the verdict callback of request 6 is accepted a
  second time; the disclosure callback of request 7 is accepted and changes nothing.\<close>

theorem replayed_callback_accepted_again_witness:
  "analyzeStyle plain scenario_requested 5 score_payload [] = Inr scenario_scored
   \<and> analysisCount scenario_scored = 1
   \<and> (\<exists>s2. analyzeStyle plain scenario_scored 5 score_payload [] = Inr s2
         \<and> analysisCount s2 = 2
         \<and> styleMatches s2 2 = styleMatches scenario_scored 1
         \<and> styleMatches s2 1 = styleMatches scenario_scored 1)
   \<and> checkSignature plain scenario_verifying 6 [8000, 9000] [] = Inr scenario_verified
   \<and> (\<exists>s2. checkSignature plain scenario_verified 6 [8000, 9000] [] = Inr s2
         \<and> styleMatches s2 = styleMatches scenario_verified)
   \<and> decryptSimilarity plain scenario_disclosing 7 [0] [] = Inr scenario_disclosing
   \<and> requestToArtworkId scenario_scored 5 = 1
   \<and> requestToAnalysisId scenario_scored 5 = 2"
proof -
  have one: "analyzeStyle plain scenario_requested 5 score_payload [] = Inr scenario_scored"
    using first_delivery by (simp add: perform_def)
  have two: "checkSignature plain scenario_verifying 6 [8000, 9000] [] = Inr scenario_verified"
    using verdict_delivery by (simp add: perform_def)
  have cnt: "analysisCount scenario_scored = 1"
    by (simp add: scenario_scored_eq)
  have tok: "requestToArtworkId scenario_requested 5 = 1"
    "requestToAnalysisId scenario_requested 5 = 2"
    by (simp_all add: scenario_requested_eq)
  note a = replayed_callback_accepted_again
    [of plain scenario_requested 5 score_payload "[]" scenario_scored]
  note b = replayed_callback_accepted_again
    [of plain scenario_verifying 6 "[8000, 9000]" "[]" scenario_verified]
  note c = replayed_callback_accepted_again
    [of plain scenario_disclosing 7 "[0]" "[]" scenario_disclosing]
  from a one cnt have
    "\<exists>s2. analyzeStyle plain scenario_scored 5 score_payload [] = Inr s2
         \<and> analysisCount s2 = 2
         \<and> styleMatches s2 2 = styleMatches scenario_scored 1
         \<and> styleMatches s2 1 = styleMatches scenario_scored 1"
    by auto
  moreover from b two have
    "\<exists>s2. checkSignature plain scenario_verified 6 [8000, 9000] [] = Inr s2
         \<and> styleMatches s2 = styleMatches scenario_verified"
    by auto
  moreover from c disclosure_delivery
  have "decryptSimilarity plain scenario_disclosing 7 [0] [] = Inr scenario_disclosing"
    by blast
  moreover from a one tok have "requestToArtworkId scenario_scored 5 = 1"
    "requestToAnalysisId scenario_scored 5 = 2"
    by auto
  ultimately show ?thesis using one two cnt by simp
qed

text \<open>The claim fails: after the first delivery of the score callback of request 5 was
  accepted (one analysis), the second delivery does not fail, and there are two analyses.\<close>

theorem replayed_callback_counterexample:
  "perform plain scenario_requested (AnalyzeStyle 5 score_payload []) = Inr scenario_scored
   \<and> analysisCount scenario_scored = 1
   \<and> \<not> isl (perform plain scenario_scored (AnalyzeStyle 5 score_payload []))
   \<and> analysisCount (transact plain scenario_scored (AnalyzeStyle 5 score_payload [])) = 2"
  by (simp add: first_delivery transact_def perform_def analyzeStyle_closed scenario_scored_eq
      scenario_requested_eq score_payload_def plain_def)

subsection \<open>C2: the stored score\<close>

text \<open>C2. The claim: the score stored by an accepted score callback is the sum of the
  elementwise products of the two decoded vectors, 32 for [1,2,3] and [4,5,6]. The
  code computes the sum over two arrays it never fills: every accepted call of
  \<open>analyzeStyle\<close> stores the encryption of 0 under the next analysis id.\<close>

theorem analyzeStyle_stores_zero_score:
  assumes "analyzeStyle E s requestId cleartexts proof = Inr s'"
  shows "analysisCount s' = analysisCount s + 1 \<and>
         encryptedSimilarityScore (styleMatches s' (analysisCount s')) = asEuint32 E 0"
  using assms by (auto simp: analyzeStyle_closed split: if_splits option.splits)

text \<open>The callback with the vectors [1,2,3] and [4,5,6] and the artist ids 1 and 1 is
  accepted and stores 0 on analysis 1, where the handle of 32 is 32.\<close>

theorem analyzeStyle_stores_zero_score_witness:
  "analyzeStyle plain scenario_requested 5 [1, 2, 3, 4, 5, 6, 1, 1, 0, 0, 0, 0] []
     = Inr scenario_scored
   \<and> analysisCount scenario_scored = 1
   \<and> encryptedSimilarityScore (styleMatches scenario_scored 1) = 0
   \<and> asEuint32 plain 32 = 32"
proof -
  have run: "analyzeStyle plain scenario_requested 5 [1, 2, 3, 4, 5, 6, 1, 1, 0, 0, 0, 0] []
      = Inr scenario_scored"
    by (simp add: analyzeStyle_closed scenario_scored_eq scenario_requested_eq plain_def)
  have before: "analysisCount scenario_requested = 0"
    by (simp add: scenario_requested_eq)
  have enc: "asEuint32 plain 0 = 0" "asEuint32 plain 32 = 32"
    by (simp_all add: plain_def)
  from analyzeStyle_stores_zero_score [OF run] show ?thesis
    by (auto simp: run before enc)
qed

subsection \<open>C3: a second request for the same pair\<close>

text \<open>C3. The claim: a second \<open>requestStyleAnalysis\<close> for the same pair of artworks,
  while the callback of the first is outstanding, fails with ConflictingRequest and
  sends no request to the oracle. The contract does not look at outstanding requests.
  What holds: after an accepted request for a pair, a second request for the same pair
  is accepted, sends a decryption request over the same handles, and records the pair
  under the new request id.\<close>

theorem second_request_accepted:
  assumes "requestStyleAnalysis E s artworkId referenceId reqId1 = Inr s1"
  shows "\<exists>s2. requestStyleAnalysis E s1 artworkId referenceId reqId2 = Inr s2
     \<and> decryptionRequests s2 =
         decryptionRequests s1 @ [(fst (last (decryptionRequests s1)), Sel_analyzeStyle, reqId2)]
     \<and> requestToArtworkId s2 = (requestToArtworkId s1)(reqId2 := artworkId)
     \<and> requestToAnalysisId s2 = (requestToAnalysisId s1)(reqId2 := referenceId)"
  using assms
  by (auto simp: requestStyleAnalysis_def requestDecryption_def emit_def Let_def
      split: if_splits)

text \<open>In the example run: with request 5 for the artworks 1 and 2 outstanding, the same
  request is accepted again under the id 6; both ids then stand for the pair.\<close>

theorem second_request_accepted_witness:
  "requestStyleAnalysis plain scenario_submitted 1 2 5 = Inr scenario_requested
   \<and> (\<exists>s2. requestStyleAnalysis plain scenario_requested 1 2 6 = Inr s2
        \<and> decryptionRequests s2 =
             [([11, 21, 1, 1], Sel_analyzeStyle, 5), ([11, 21, 1, 1], Sel_analyzeStyle, 6)]
        \<and> requestToArtworkId s2 5 = 1 \<and> requestToArtworkId s2 6 = 1
        \<and> requestToAnalysisId s2 5 = 2 \<and> requestToAnalysisId s2 6 = 2)"
proof -
  have req: "decryptionRequests scenario_requested = [([11, 21, 1, 1], Sel_analyzeStyle, 5)]"
    "requestToArtworkId scenario_requested 5 = 1" "requestToAnalysisId scenario_requested 5 = 2"
    by (simp_all add: scenario_requested_eq)
  from second_request_accepted [OF request_accepted, of 6] show ?thesis
    by (auto simp: request_accepted req)
qed

text \<open>The claim fails: no callback has arrived for request 5 (there is no analysis yet),
  and the second request for the artworks 1 and 2 does not fail and sends a second
  decryption request.\<close>

theorem second_request_counterexample:
  "analysisCount scenario_requested = 0
   \<and> requestToArtworkId scenario_requested 5 = 1
   \<and> requestToAnalysisId scenario_requested 5 = 2
   \<and> \<not> isl (perform plain scenario_requested (RequestStyleAnalysis 1 2 6))
   \<and> decryptionRequests (transact plain scenario_requested (RequestStyleAnalysis 1 2 6)) =
        [([11, 21, 1, 1], Sel_analyzeStyle, 5), ([11, 21, 1, 1], Sel_analyzeStyle, 6)]"
  by (simp add: transact_def perform_def requestStyleAnalysis_def requestDecryption_def
      emit_def scenario_requested_eq plain_def Let_def)

subsection \<open>C4: verification before the score\<close>

text \<open>C4. The claim: \<open>verifyAuthenticity\<close> on an analysis that is not in state Scored
  fails with InvalidState, changes no analysis and sends no request. The contract keeps
  no workflow state; an analysis record comes into being with the score callback. What
  holds: for an id above \<open>analysisCount\<close> the call reverts with "Invalid analysis", and
  the storage and both logs are as before; for an analysis id from 1 to
  \<open>analysisCount\<close> and an artist id from 1 to \<open>artistCount\<close> the call is accepted
  whatever callbacks the analysis has received: it changes no analysis, sends one
  decryption request and records the analysis id under the new request id. Nothing is
  said here of the reserved id 0, for the analysis or for the artist.\<close>

theorem verifyAuthenticity_guard:
  "(\<not> analysisId \<le> analysisCount s \<longrightarrow>
      verifyAuthenticity E s analysisId artistId reqId = Inl (Require ''Invalid analysis'')
      \<and> transact E s (VerifyAuthenticity analysisId artistId reqId) = s)
   \<and> (analysisId \<noteq> 0 \<and> analysisId \<le> analysisCount s
       \<and> artistId \<noteq> 0 \<and> artistId \<le> artistCount s \<longrightarrow>
      (\<exists>s'. verifyAuthenticity E s analysisId artistId reqId = Inr s'
         \<and> styleMatches s' = styleMatches s
         \<and> decryptionRequests s' = decryptionRequests s @
              [([toBytes32 E (encryptedSimilarityScore (styleMatches s analysisId)),
                 toBytes32 E (encryptedSignatureVector (artistProfiles s artistId))],
                Sel_checkSignature, reqId)]
         \<and> requestToAnalysisId s' = (requestToAnalysisId s)(reqId := analysisId)))"
  by (simp add: verifyAuthenticity_def transact_def perform_def requestDecryption_def Let_def)

text \<open>In the example run: with one analysis stored, the call for analysis 2 reverts; the
  call for analysis 1 and artist 1 is accepted after the verdict callback.\<close>

theorem verifyAuthenticity_guard_witness:
  "\<not> (2 :: u256) \<le> analysisCount scenario_scored
   \<and> verifyAuthenticity plain scenario_scored 2 1 6 = Inl (Require ''Invalid analysis'')
   \<and> transact plain scenario_scored (VerifyAuthenticity 2 1 6) = scenario_scored
   \<and> (1 :: u256) \<noteq> 0 \<and> 1 \<le> analysisCount scenario_verified
   \<and> 1 \<le> artistCount scenario_verified
   \<and> (\<exists>s'. verifyAuthenticity plain scenario_verified 1 1 8 = Inr s'
         \<and> styleMatches s' = styleMatches scenario_verified
         \<and> decryptionRequests s' = decryptionRequests scenario_verified @
              [([0, 77], Sel_checkSignature, 8)]
         \<and> requestToAnalysisId s' = (requestToAnalysisId scenario_verified)(8 := 1))"
proof -
  have c1: "analysisCount scenario_scored = 1"
    by (simp add: scenario_scored_eq)
  have c0: "\<not> (2 :: u256) \<le> 1"
    by (simp add: word_le_nat_alt)
  have c2: "analysisCount scenario_verified = 1" "artistCount scenario_verified = 1"
    "toBytes32 plain (encryptedSimilarityScore (styleMatches scenario_verified 1)) = 0"
    "toBytes32 plain (encryptedSignatureVector (artistProfiles scenario_verified 1)) = 77"
    by (simp_all add: scenario_verified_eq scenario_verifying_eq scenario_scored_eq
        scenario_requested_eq plain_def)
  from verifyAuthenticity_guard [of 2 scenario_scored plain 1 6]
    verifyAuthenticity_guard [of 1 scenario_verified plain 1 8]
  show ?thesis
    by (simp add: c0 c1 c2)
qed

text \<open>The claim fails: analysis 1 has received its verdict callback, and
  \<open>verifyAuthenticity\<close> on it does not fail and sends a new decryption request; on the
  freshly deployed contract, where no analysis exists, the call for the id 0 does not
  fail either and sends a decryption request.\<close>

theorem verifyAuthenticity_counterexample:
  "perform plain scenario_verifying (CheckSignature 6 [8000, 9000] []) = Inr scenario_verified
   \<and> \<not> isl (perform plain scenario_verified (VerifyAuthenticity 1 1 8))
   \<and> decryptionRequests (transact plain scenario_verified (VerifyAuthenticity 1 1 8)) =
        decryptionRequests scenario_verified @ [([0, 77], Sel_checkSignature, 8)]
   \<and> analysisCount deployed = 0
   \<and> \<not> isl (perform plain deployed (VerifyAuthenticity 0 0 8))
   \<and> decryptionRequests (transact plain deployed (VerifyAuthenticity 0 0 8)) =
        [([0, 0], Sel_checkSignature, 8)]"
proof -
  have "\<not> isl (perform plain scenario_verified (VerifyAuthenticity 1 1 8))
   \<and> decryptionRequests (transact plain scenario_verified (VerifyAuthenticity 1 1 8)) =
        decryptionRequests scenario_verified @ [([0, 77], Sel_checkSignature, 8)]"
    by (simp add: transact_def perform_def verifyAuthenticity_def requestDecryption_def
        scenario_verified_eq scenario_verifying_eq scenario_scored_eq scenario_requested_eq
        plain_def Let_def)
  moreover have "analysisCount deployed = 0
   \<and> \<not> isl (perform plain deployed (VerifyAuthenticity 0 0 8))
   \<and> decryptionRequests (transact plain deployed (VerifyAuthenticity 0 0 8)) =
        [([0, 0], Sel_checkSignature, 8)]"
    by (simp add: transact_def perform_def verifyAuthenticity_def requestDecryption_def
        plain_simps Let_def)
  ultimately show ?thesis using verdict_delivery by simp
qed

subsection \<open>C5: the verdict after the verdict\<close>

text \<open>C5. The claim: once an analysis has its verdict, no operation or callback changes
  it. The contract keeps no terminal state: an accepted \<open>checkSignature\<close> writes the
  verdict of its bytes whatever the flag was. What holds: the record of an analysis that
  exists (id at most \<open>analysisCount\<close>) is left as it is by every accepted call other than a
  \<open>checkSignature\<close> whose request id is correlated with that analysis.\<close>

theorem verdict_changed_only_by_checkSignature:
  assumes "perform E s call = Inr s'"
    and "a \<le> analysisCount s"
    and "case call of CheckSignature requestId cleartexts proof \<Rightarrow>
            requestToAnalysisId s requestId \<noteq> a
         | _ \<Rightarrow> True"
  shows "styleMatches s' a = styleMatches s a"
proof (cases call)
  case (RegisterArtist sv)
  with assms show ?thesis
    by (auto simp: perform_def registerArtist_def split: sum.splits)
next
  case (SubmitArtwork ih sv ai t)
  with assms show ?thesis
    by (auto simp: perform_def submitArtwork_def emit_def Let_def split: sum.splits if_splits)
next
  case (RequestStyleAnalysis ai ri q)
  with assms show ?thesis
    by (auto simp: perform_def requestStyleAnalysis_def requestDecryption_def emit_def Let_def
        split: if_splits)
next
  case (AnalyzeStyle q c p)
  with assms show ?thesis
    by (auto simp: perform_def analyzeStyle_closed next_id_fresh split: if_splits option.splits)
next
  case (VerifyAuthenticity ai ri q)
  with assms show ?thesis
    by (auto simp: perform_def verifyAuthenticity_def requestDecryption_def Let_def
        split: if_splits)
next
  case (CheckSignature q c p)
  with assms show ?thesis
    by (auto simp: perform_def checkSignature_closed split: if_splits option.splits)
next
  case (RequestAnalysisProof ai q)
  with assms show ?thesis
    by (auto simp: perform_def requestAnalysisProof_def requestDecryption_def Let_def
        split: if_splits)
next
  case (DecryptSimilarity q c p)
  with assms show ?thesis
    by (auto simp: perform_def decryptSimilarity_closed split: if_splits option.splits)
qed

text \<open>In the example run, after the verdict on analysis 1: the score callback of request 5
  delivered again, and a \<open>checkSignature\<close> for request 5 (correlated with the id 2), are
  both accepted and leave analysis 1 as it is.\<close>

theorem verdict_changed_only_by_checkSignature_witness:
  "\<not> isl (perform plain scenario_verified (AnalyzeStyle 5 score_payload []))
   \<and> (1 :: u256) \<le> analysisCount scenario_verified
   \<and> styleMatches (transact plain scenario_verified (AnalyzeStyle 5 score_payload [])) 1
       = styleMatches scenario_verified 1
   \<and> \<not> isl (perform plain scenario_verified (CheckSignature 5 [5000, 9000] []))
   \<and> requestToAnalysisId scenario_verified 5 \<noteq> 1
   \<and> styleMatches (transact plain scenario_verified (CheckSignature 5 [5000, 9000] [])) 1
       = styleMatches scenario_verified 1"
proof -
  have f: "analysisCount scenario_verified = 1" "requestToAnalysisId scenario_verified 5 = 2"
    "requestToArtworkId scenario_verified 5 = 1"
    by (simp_all add: scenario_verified_eq scenario_verifying_eq scenario_scored_eq
        scenario_requested_eq)
  have a: "\<not> isl (perform plain scenario_verified (AnalyzeStyle 5 score_payload []))"
    by (simp add: perform_def analyzeStyle_closed f score_payload_def plain_def)
  have b: "\<not> isl (perform plain scenario_verified (CheckSignature 5 [5000, 9000] []))"
    by (simp add: perform_def checkSignature_closed f plain_def)
  have "styleMatches (transact plain scenario_verified (AnalyzeStyle 5 score_payload [])) 1
       = styleMatches scenario_verified 1"
    using verdict_changed_only_by_checkSignature [OF perform_accepted [OF a], of 1]
    by (simp add: f)
  moreover have
    "styleMatches (transact plain scenario_verified (CheckSignature 5 [5000, 9000] [])) 1
       = styleMatches scenario_verified 1"
    using verdict_changed_only_by_checkSignature [OF perform_accepted [OF b], of 1]
    by (simp add: f)
  ultimately show ?thesis using a b by (simp add: f)
qed

text \<open>The claim fails: analysis 1 has the verdict authentic from the callback of request
  6; a further callback for request 6 with similarity 5000 is accepted and turns the
  verdict into not authentic.\<close>

theorem terminal_verdict_counterexample:
  "perform plain scenario_verifying (CheckSignature 6 [8000, 9000] []) = Inr scenario_verified
   \<and> getVerificationStatus scenario_verified 1
   \<and> \<not> isl (perform plain scenario_verified (CheckSignature 6 [5000, 9000] []))
   \<and> \<not> getVerificationStatus
          (transact plain scenario_verified (CheckSignature 6 [5000, 9000] [])) 1"
proof -
  have "getVerificationStatus scenario_verified 1
   \<and> \<not> isl (perform plain scenario_verified (CheckSignature 6 [5000, 9000] []))
   \<and> \<not> getVerificationStatus
          (transact plain scenario_verified (CheckSignature 6 [5000, 9000] [])) 1"
    by (simp add: getVerificationStatus_def transact_def perform_def checkSignature_closed
        scenario_verified_eq scenario_verifying_eq scenario_scored_eq scenario_requested_eq
        plain_def)
  then show ?thesis using verdict_delivery by simp
qed

subsection \<open>C6: the verdict rule\<close>

text \<open>C6. For bytes that decode to a similarity value and a signature-match value (and
  possibly more), a call of \<open>checkSignature\<close> is accepted exactly when the request id
  is correlated with an analysis id other than 0 and the proof is accepted; the storage
  after the call is then the storage before it with the verdict of that analysis set to:
  similarity above 7000 and signature match above 8000, and the event
  \<open>VerificationCompleted\<close> added. So the analysis of an accepted verdict callback is
  marked authentic if and only if both values exceed their thresholds, whatever the flag
  was before.\<close>

theorem checkSignature_verdict:
  assumes "decode_uint32_array E cleartexts = Some (similarityScore # signatureMatch # rest)"
  shows "(checkSignature E s requestId cleartexts attestation = Inr s'
          \<longleftrightarrow> requestToAnalysisId s requestId \<noteq> 0
              \<and> checkSignatures E requestId cleartexts attestation
              \<and> s' = s\<lparr>styleMatches := (styleMatches s)
                         (requestToAnalysisId s requestId :=
                            (styleMatches s (requestToAnalysisId s requestId))
                              \<lparr>isVerified := (7000 < similarityScore \<and> 8000 < signatureMatch)\<rparr>),
                       events := events s @
                         [VerificationCompleted (requestToAnalysisId s requestId)]\<rparr>)
         \<and> (checkSignature E s requestId cleartexts attestation = Inr s' \<longrightarrow>
              isVerified (styleMatches s' (requestToAnalysisId s requestId))
                = (7000 < similarityScore \<and> 8000 < signatureMatch))"
  using assms by (auto simp: checkSignature_closed split: if_splits)

text \<open>In the example run the flag of analysis 1 is set when request 6 is answered.
  Similarity 5000 with signature match 9000 is accepted and clears the flag; from there,
  similarity 8000 with signature match 9000 is accepted and sets it, and nothing else
  changes but the event log.\<close>

theorem checkSignature_verdict_witness:
  "requestToAnalysisId scenario_verifying 6 = 1
   \<and> isVerified (styleMatches scenario_verifying 1)
   \<and> checkSignature plain scenario_verifying 6 [5000, 9000] [] = Inr scenario_rejected
   \<and> \<not> isVerified (styleMatches scenario_rejected 1)
   \<and> requestToAnalysisId scenario_rejected 6 = 1
   \<and> (\<exists>s'. checkSignature plain scenario_rejected 6 [8000, 9000] [] = Inr s'
        \<and> isVerified (styleMatches s' 1)
        \<and> s' = scenario_rejected
             \<lparr>styleMatches := (styleMatches scenario_rejected)
                (1 := (styleMatches scenario_rejected 1)\<lparr>isVerified := True\<rparr>),
              events := events scenario_rejected @ [VerificationCompleted 1]\<rparr>)"
proof -
  have tok: "requestToAnalysisId scenario_verifying 6 = 1"
    "requestToAnalysisId scenario_rejected 6 = 1"
    by (simp_all add: scenario_rejected_eq scenario_verifying_eq scenario_scored_eq
        scenario_requested_eq)
  have flags: "isVerified (styleMatches scenario_verifying 1)"
    "\<not> isVerified (styleMatches scenario_rejected 1)"
    by (simp_all add: scenario_rejected_eq scenario_verifying_eq scenario_scored_eq
        scenario_requested_eq)
  have ext: "checkSignatures plain 6 [5000, 9000] []" "checkSignatures plain 6 [8000, 9000] []"
    "decode_uint32_array plain [5000, 9000] = Some (5000 # 9000 # [])"
    "decode_uint32_array plain [8000, 9000] = Some (8000 # 9000 # [])"
    by (simp_all add: plain_def)
  have thr: "\<not> ((7000 :: u32) < 5000 \<and> (8000 :: u32) < 9000)"
    "(7000 :: u32) < 8000 \<and> (8000 :: u32) < 9000"
    by simp_all
  have rej: "scenario_rejected = scenario_verifying
       \<lparr>styleMatches := (styleMatches scenario_verifying)
          (1 := (styleMatches scenario_verifying 1)\<lparr>isVerified := False\<rparr>),
        events := events scenario_verifying @ [VerificationCompleted 1]\<rparr>"
    by (simp add: scenario_rejected_eq scenario_verifying_eq scenario_scored_eq
        scenario_requested_eq)
  note a = checkSignature_verdict
    [where s = scenario_verifying and requestId = 6 and attestation = "[]"
       and s' = scenario_rejected, OF ext(3)]
  note b = checkSignature_verdict
    [where s = scenario_rejected and requestId = 6 and attestation = "[]"
       and s' = "scenario_rejected
             \<lparr>styleMatches := (styleMatches scenario_rejected)
                (1 := (styleMatches scenario_rejected 1)\<lparr>isVerified := True\<rparr>),
              events := events scenario_rejected @ [VerificationCompleted 1]\<rparr>", OF ext(4)]
  have one: "checkSignature plain scenario_verifying 6 [5000, 9000] [] = Inr scenario_rejected"
    using a ext(1) rej by (simp add: tok thr)
  have two: "checkSignature plain scenario_rejected 6 [8000, 9000] [] = Inr (scenario_rejected
             \<lparr>styleMatches := (styleMatches scenario_rejected)
                (1 := (styleMatches scenario_rejected 1)\<lparr>isVerified := True\<rparr>),
              events := events scenario_rejected @ [VerificationCompleted 1]\<rparr>)"
    using b ext(2) by (simp add: tok thr)
  show ?thesis using one two tok flags by simp
qed

subsection \<open>C7: the reserved id 0\<close>

text \<open>C7. The claim: \<open>requestStyleAnalysis\<close> fails when an id does not resolve to an
  artwork, the reserved id 0 included, and then records nothing and requests nothing.
  The code only rejects ids above \<open>artworkCount\<close>: with both ids 0 the call is accepted
  in every state, sends a decryption request over the handles of the empty slot 0 and
  records 0 under the new request id.\<close>

theorem requestStyleAnalysis_accepts_id_zero:
  "\<exists>s'. requestStyleAnalysis E s 0 0 reqId = Inr s'
     \<and> decryptionRequests s' = decryptionRequests s @
          [([toBytes32 E (encryptedStyleVector (artworks s 0)),
             toBytes32 E (encryptedStyleVector (artworks s 0)),
             toBytes32 E (encryptedArtistId (artworks s 0)),
             toBytes32 E (encryptedArtistId (artworks s 0))], Sel_analyzeStyle, reqId)]
     \<and> requestToArtworkId s' = (requestToArtworkId s)(reqId := 0)
     \<and> requestToAnalysisId s' = (requestToAnalysisId s)(reqId := 0)"
  by (simp add: requestStyleAnalysis_def requestDecryption_def emit_def Let_def)

subsection \<open>C8: a request id presented to another callback\<close>

text \<open>C8. The claim: a callback that presents a request id to a handler of another kind
  than the one the request was made for fails with KindMismatch and changes nothing.
  The contract records no kind with a request id: \<open>verifyAuthenticity\<close> and
  \<open>requestAnalysisProof\<close> write to the same table, which \<open>checkSignature\<close> and
  \<open>decryptSimilarity\<close> both read. What holds: a request id returned to
  \<open>verifyAuthenticity\<close> or \<open>requestAnalysisProof\<close>, with no artwork recorded under it,
  is rejected by \<open>analyzeStyle\<close> with "Invalid request"; a request id returned to
  \<open>requestAnalysisProof\<close> is accepted by \<open>checkSignature\<close>, which writes the verdict
  of the bytes to the analysis and leaves the correlation entries as they are; a request
  id returned to \<open>verifyAuthenticity\<close> is accepted by \<open>decryptSimilarity\<close> (each given
  an analysis id other than 0, an accepted proof and bytes that decode).\<close>

theorem request_kind_not_recorded:
  "(verifyAuthenticity E s analysisId artistId reqId = Inr s1
      \<and> requestToArtworkId s reqId = 0 \<longrightarrow>
      analyzeStyle E s1 reqId cleartexts attestation = Inl (Require ''Invalid request''))
   \<and> (requestAnalysisProof E s analysisId reqId = Inr s1
      \<and> requestToArtworkId s reqId = 0 \<longrightarrow>
      analyzeStyle E s1 reqId cleartexts attestation = Inl (Require ''Invalid request''))
   \<and> (requestAnalysisProof E s analysisId reqId = Inr s1 \<and> analysisId \<noteq> 0
       \<and> checkSignatures E reqId cleartexts attestation
       \<and> decode_uint32_array E cleartexts = Some (x # y # rest) \<longrightarrow>
      (\<exists>s2. checkSignature E s1 reqId cleartexts attestation = Inr s2
         \<and> isVerified (styleMatches s2 analysisId) = (7000 < x \<and> 8000 < y)
         \<and> requestToAnalysisId s2 = requestToAnalysisId s1))
   \<and> (verifyAuthenticity E s analysisId artistId reqId = Inr s1 \<and> analysisId \<noteq> 0
       \<and> checkSignatures E reqId cleartexts attestation
       \<and> decode_uint32 E cleartexts = Some similarity \<longrightarrow>
      decryptSimilarity E s1 reqId cleartexts attestation = Inr s1)"
proof (intro conjI impI)
  assume "verifyAuthenticity E s analysisId artistId reqId = Inr s1
      \<and> requestToArtworkId s reqId = 0"
  then show "analyzeStyle E s1 reqId cleartexts attestation = Inl (Require ''Invalid request'')"
    by (auto simp: verifyAuthenticity_def requestDecryption_def analyzeStyle_closed Let_def
        split: if_splits)
next
  assume "requestAnalysisProof E s analysisId reqId = Inr s1
      \<and> requestToArtworkId s reqId = 0"
  then show "analyzeStyle E s1 reqId cleartexts attestation = Inl (Require ''Invalid request'')"
    by (auto simp: requestAnalysisProof_def requestDecryption_def analyzeStyle_closed Let_def
        split: if_splits)
next
  assume "requestAnalysisProof E s analysisId reqId = Inr s1 \<and> analysisId \<noteq> 0
       \<and> checkSignatures E reqId cleartexts attestation
       \<and> decode_uint32_array E cleartexts = Some (x # y # rest)"
  then show "\<exists>s2. checkSignature E s1 reqId cleartexts attestation = Inr s2
         \<and> isVerified (styleMatches s2 analysisId) = (7000 < x \<and> 8000 < y)
         \<and> requestToAnalysisId s2 = requestToAnalysisId s1"
    by (auto simp: requestAnalysisProof_def requestDecryption_def checkSignature_closed Let_def
        split: if_splits)
next
  assume "verifyAuthenticity E s analysisId artistId reqId = Inr s1 \<and> analysisId \<noteq> 0
       \<and> checkSignatures E reqId cleartexts attestation
       \<and> decode_uint32 E cleartexts = Some similarity"
  then show "decryptSimilarity E s1 reqId cleartexts attestation = Inr s1"
    by (auto simp: verifyAuthenticity_def requestDecryption_def decryptSimilarity_closed Let_def
        split: if_splits)
qed

text \<open>In the example run: the ids 6 (from \<open>verifyAuthenticity\<close>) and 7 (from
  \<open>requestAnalysisProof\<close>) are rejected by \<open>analyzeStyle\<close>; the id 6 is accepted by
  \<open>decryptSimilarity\<close> and the id 7 by \<open>checkSignature\<close>.\<close>

theorem request_kind_not_recorded_witness:
  "verifyAuthenticity plain scenario_scored 1 1 6 = Inr scenario_verifying
   \<and> requestToArtworkId scenario_scored 6 = 0
   \<and> analyzeStyle plain scenario_verifying 6 score_payload [] = Inl (Require ''Invalid request'')
   \<and> decryptSimilarity plain scenario_verifying 6 [0] [] = Inr scenario_verifying
   \<and> requestAnalysisProof plain scenario_verified 1 7 = Inr scenario_disclosing
   \<and> requestToArtworkId scenario_verified 7 = 0
   \<and> analyzeStyle plain scenario_disclosing 7 score_payload []
        = Inl (Require ''Invalid request'')
   \<and> (\<exists>s2. checkSignature plain scenario_disclosing 7 [5000, 9000] [] = Inr s2
        \<and> \<not> isVerified (styleMatches s2 1))"
proof -
  note v = verification_requested
  have z: "requestToArtworkId scenario_scored 6 = 0" "requestToArtworkId scenario_verified 7 = 0"
    by (simp_all add: scenario_verified_eq scenario_verifying_eq scenario_scored_eq
        scenario_requested_eq)
  note r = proof_requested
  have d: "checkSignatures plain 6 [0] []" "decode_uint32 plain [0] = Some 0"
    "checkSignatures plain 7 [5000, 9000] []"
    "decode_uint32_array plain [5000, 9000] = Some (5000 # 9000 # [])"
    "(1 :: u256) \<noteq> 0"
    by (simp_all add: plain_def)
  note t1 = request_kind_not_recorded
    [where E = plain and s = scenario_scored and analysisId = 1 and artistId = 1
       and reqId = 6 and ?s1.0 = scenario_verifying and cleartexts = score_payload
       and attestation = "[]"]
  note t2 = request_kind_not_recorded
    [where E = plain and s = scenario_scored and analysisId = 1 and artistId = 1
       and reqId = 6 and ?s1.0 = scenario_verifying and cleartexts = "[0]"
       and attestation = "[]" and similarity = 0]
  note t3 = request_kind_not_recorded
    [where E = plain and s = scenario_verified and analysisId = 1
       and reqId = 7 and ?s1.0 = scenario_disclosing and cleartexts = score_payload and attestation = "[]"]
  note t4 = request_kind_not_recorded
    [where E = plain and s = scenario_verified and analysisId = 1
       and reqId = 7 and ?s1.0 = scenario_disclosing and cleartexts = "[5000, 9000]" and attestation = "[]"
       and x = 5000 and y = 9000 and rest = "[]"]
  from t1 v z
  have "analyzeStyle plain scenario_verifying 6 score_payload [] = Inl (Require ''Invalid request'')"
    by blast
  moreover from t2 v d
  have "decryptSimilarity plain scenario_verifying 6 [0] [] = Inr scenario_verifying"
    by blast
  moreover from t3 r z
  have "analyzeStyle plain scenario_disclosing 7 score_payload []
      = Inl (Require ''Invalid request'')"
    by blast
  moreover from t4 r d
  have "\<exists>s2. checkSignature plain scenario_disclosing 7 [5000, 9000] [] = Inr s2
        \<and> \<not> isVerified (styleMatches s2 1)"
    by auto
  ultimately show ?thesis using v z r by simp
qed

text \<open>The claim fails: request 7 was made by \<open>requestAnalysisProof\<close> for analysis 1,
  which has the verdict authentic; a callback to \<open>checkSignature\<close> with the id 7 does not
  fail and turns the verdict into not authentic.\<close>

theorem request_kind_counterexample:
  "perform plain scenario_verified (RequestAnalysisProof 1 7) = Inr scenario_disclosing
   \<and> isVerified (styleMatches scenario_disclosing 1)
   \<and> \<not> isl (perform plain scenario_disclosing (CheckSignature 7 [5000, 9000] []))
   \<and> \<not> isVerified (styleMatches
          (transact plain scenario_disclosing (CheckSignature 7 [5000, 9000] [])) 1)"
proof -
  have "perform plain scenario_verified (RequestAnalysisProof 1 7) = Inr scenario_disclosing"
    using proof_requested by (simp add: perform_def)
  moreover have "isVerified (styleMatches scenario_disclosing 1)
   \<and> \<not> isl (perform plain scenario_disclosing (CheckSignature 7 [5000, 9000] []))
   \<and> \<not> isVerified (styleMatches
          (transact plain scenario_disclosing (CheckSignature 7 [5000, 9000] [])) 1)"
    by (simp add: transact_def perform_def checkSignature_closed scenario_disclosing_eq
        scenario_verified_eq scenario_verifying_eq scenario_scored_eq scenario_requested_eq
        plain_def)
  ultimately show ?thesis by simp
qed

subsection \<open>C9: the artwork count of an artist\<close>

text \<open>C9. The claim: \<open>submitArtwork\<close> increments an artist's count only when the
  reference is non-zero and resolves to a registered artist. The code compares the
  handle with the encryption of 0 and then increments the slot of the decrypted id,
  without comparing that id with \<open>artistCount\<close>: whenever the handle differs from the
  encryption of 0 (and no counter is at its maximum), the submission is accepted, the
  artwork is stored with that reference, and the count of the slot grows by one,
  registered or not.\<close>

theorem submitArtwork_counts_unregistered_artist:
  assumes "artistId \<noteq> asEuint32 E 0"
    and "artworkCount s \<noteq> - 1"
    and "profile_artworkCount (artistProfiles s (ucast (decrypt E artistId))) \<noteq> - 1"
  shows "\<exists>s'. submitArtwork E s imageHash styleVector artistId block_timestamp = Inr s'
     \<and> artistCount s' = artistCount s
     \<and> encryptedArtistId (artworks s' (artworkCount s')) = artistId
     \<and> profile_artworkCount (artistProfiles s' (ucast (decrypt E artistId)))
         = profile_artworkCount (artistProfiles s (ucast (decrypt E artistId))) + 1"
  using assms by (simp add: submitArtwork_def incr_def emit_def Let_def)

text \<open>On the freshly deployed contract no artist is registered; a submission with the
  artist reference 5 is accepted, artwork 1 carries the reference 5, and the slot 5 has
  the count 1.\<close>

theorem submitArtwork_counts_unregistered_artist_witness:
  "artistCount deployed = 0
   \<and> (\<exists>s'. submitArtwork plain deployed 10 11 5 1000 = Inr s'
        \<and> artistCount s' = 0
        \<and> encryptedArtistId (artworks s' 1) = 5
        \<and> getArtistArtworkCount s' 5 = 1)"
proof -
  have h: "(5 :: euint32) \<noteq> asEuint32 plain 0" "artworkCount deployed \<noteq> - 1"
    "profile_artworkCount (artistProfiles deployed (ucast (decrypt plain 5))) \<noteq> - 1"
    by (simp_all add: plain_simps)
  have e: "artistCount deployed = 0" "(ucast (decrypt plain 5) :: u256) = 5"
    "profile_artworkCount (artistProfiles deployed 5) = 0"
    by (simp_all add: plain_simps)
  from submitArtwork_counts_unregistered_artist [OF h, of 10 11 1000]
  obtain s' where s': "submitArtwork plain deployed 10 11 5 1000 = Inr s'"
    "artistCount s' = artistCount deployed"
     "encryptedArtistId (artworks s' (artworkCount s')) = 5"
     "profile_artworkCount (artistProfiles s' (ucast (decrypt plain 5)))
         = profile_artworkCount (artistProfiles deployed (ucast (decrypt plain 5))) + 1"
    by blast
  have "artworkCount s' = 1"
    using s'(1) by (auto simp: submitArtwork_def incr_def emit_def plain_simps Let_def)
  with s' show ?thesis
    by (auto simp: e getArtistArtworkCount_def)
qed

subsection \<open>C10: the status of an analysis that does not exist\<close>

text \<open>C10. The claim: \<open>getVerificationStatus\<close> returns false for an id under which no
  analysis exists. After the run up to the analysis request (no analysis exists, request
  5 stands for the artworks 1 and 2), the answer to request 5 handed to
  \<open>checkSignature\<close> is accepted and sets the flag of slot 2: the contract then reports
  the analysis 2, which does not exist, as verified.\<close>

theorem unknown_analysis_reported_verified:
  "analysisCount (transact plain scenario_requested (CheckSignature 5 [8000, 9000, 1, 1] [])) = 0
   \<and> getVerificationStatus
        (transact plain scenario_requested (CheckSignature 5 [8000, 9000, 1, 1] [])) 2"
  by (simp add: transact_def perform_def checkSignature_closed getVerificationStatus_def
      scenario_requested_eq plain_def)

end
